theory Spec2Isabelle
  imports Complex_Main
begin

section \<open>JavaScript values of the mini app\<close>

text \<open>
  The program is the browser script \<^verbatim>\<open>webapp/app.js\<close> and a second, shorter copy of it
  (cited below as the second copy).  A JavaScript string is the list of its UTF-16 code
  units; \<open>ustr\<close> embeds an ASCII literal.  Texts of the script that are not ASCII
  (Cyrillic labels, emoji) are written out as code units.
\<close>

type_synonym js_string = "nat list"

definition ustr :: "string \<Rightarrow> js_string" where
  "ustr s = map of_char s"

text \<open>
  \<^verbatim>\<open>String.prototype.trim\<close>: strips the code units of ECMAScript's WhiteSpace and
  LineTerminator productions from both ends.
\<close>

definition is_js_whitespace :: "nat \<Rightarrow> bool" where
  "is_js_whitespace c =
     (c \<in> {9, 10, 11, 12, 13, 32, 160, 5760, 8232, 8233, 8239, 8287, 12288, 65279}
      \<or> (8192 \<le> c \<and> c \<le> 8202))"

definition trim :: "js_string \<Rightarrow> js_string" where
  "trim s = rev (dropWhile is_js_whitespace (rev (dropWhile is_js_whitespace s)))"

text \<open>
  \<^verbatim>\<open>parseInt(string)\<close> with no radix: leading white space is skipped, a sign is read,
  a \<^verbatim>\<open>0x\<close> prefix selects radix 16, and the longest prefix of digits is the value;
  no digit at all is \<^verbatim>\<open>NaN\<close>, here \<open>None\<close>.  The result is kept as the exact integer:
  the program only compares it with 0, 1 and 100, which rounding to a double preserves.
\<close>

definition digit_value :: "nat \<Rightarrow> nat option" where
  "digit_value c =
     (if 48 \<le> c \<and> c \<le> 57 then Some (c - 48)
      else if 97 \<le> c \<and> c \<le> 122 then Some (c - 87)
      else if 65 \<le> c \<and> c \<le> 90 then Some (c - 55)
      else None)"

definition is_radix_digit :: "nat \<Rightarrow> nat \<Rightarrow> bool" where
  "is_radix_digit R c = (case digit_value c of None \<Rightarrow> False | Some d \<Rightarrow> d < R)"

definition digits_value :: "nat \<Rightarrow> js_string \<Rightarrow> nat" where
  "digits_value R ds =
     foldl (\<lambda>acc c. acc * R + (case digit_value c of None \<Rightarrow> 0 | Some d \<Rightarrow> d)) 0 ds"

definition parseInt :: "js_string \<Rightarrow> int option" where
  "parseInt str =
     (let S = dropWhile is_js_whitespace str;
          negative = (S \<noteq> [] \<and> hd S = 45);
          S1 = (if S \<noteq> [] \<and> (hd S = 43 \<or> hd S = 45) then tl S else S);
          hex = (2 \<le> length S1 \<and> hd S1 = 48 \<and> (S1 ! 1 = 120 \<or> S1 ! 1 = 88));
          R = (if hex then 16 else 10);
          S2 = (if hex then drop 2 S1 else S1);
          Z = takeWhile (is_radix_digit R) S2
      in if Z = [] then None
         else Some ((if negative then - 1 else 1) * int (digits_value R Z)))"

text \<open>
  The decimal text of an integer, as \<^verbatim>\<open>String(n)\<close> gives it for an integer below
  \<open>2^53\<close> in size: such an integer is a double, and its shortest digits that read back
  as the same double are its own.
\<close>

fun nat_digits :: "nat \<Rightarrow> js_string" where
  "nat_digits n = (if n < 10 then [48 + n] else nat_digits (n div 10) @ [48 + n mod 10])"

declare nat_digits.simps [simp del]

definition int_text :: "int \<Rightarrow> js_string" where
  "int_text i = (if i < 0 then 45 # nat_digits (nat (- i)) else nat_digits (nat i))"

text \<open>
  Arithmetic on numbers is IEEE 754 binary64: the exact result rounded to the nearest
  double, ties to even.  \<open>binade x\<close> is the exponent \<open>b\<close> with \<open>2^b \<le> x < 2^(b+1)\<close>; a
  double of that size is a multiple of \<open>2^(b-52)\<close>, and of \<open>2^(-1074)\<close> when it is
  subnormal.  A result of size \<open>2^1024 - 2^970\<close> or more rounds to an infinity, which prints
  as \<^verbatim>\<open>Infinity\<close> or \<^verbatim>\<open>-Infinity\<close>.
\<close>

fun bit_length :: "nat \<Rightarrow> nat" where
  "bit_length n = (if n = 0 then 0 else Suc (bit_length (n div 2)))"

declare bit_length.simps [simp del]

definition pow2 :: "int \<Rightarrow> rat" where
  "pow2 e = (if 0 \<le> e then 2 ^ nat e else 1 / 2 ^ nat (- e))"

definition binade :: "rat \<Rightarrow> int" where
  "binade x =
     (if 1 \<le> x then int (bit_length (nat \<lfloor>x\<rfloor>)) - 1
      else - int (bit_length (nat (\<lceil>1 / x\<rceil> - 1))))"

definition round_half_even :: "rat \<Rightarrow> int" where
  "round_half_even m =
     (let f = \<lfloor>m\<rfloor>; d = m - of_int f
      in if d < 1 / 2 then f else if 1 / 2 < d then f + 1 else if even f then f else f + 1)"

definition round_double :: "rat \<Rightarrow> rat" where
  "round_double r =
     (if r = 0 then 0
      else
        (let e = max (binade \<bar>r\<bar> - 52) (- 1074)
         in sgn r * of_int (round_half_even (\<bar>r\<bar> / pow2 e)) * pow2 e))"

definition double_overflows :: "rat \<Rightarrow> bool" where
  "double_overflows r = (2 ^ 1024 - 2 ^ 970 \<le> \<bar>r\<bar>)"

definition infinity_text :: "rat \<Rightarrow> js_string" where
  "infinity_text r = (if r < 0 then ustr ''-Infinity'' else ustr ''Infinity'')"

text \<open>
  Values that reach the script from outside: the payload of a message event and the
  result of \<^verbatim>\<open>JSON.parse\<close>.  An object is the list of its own properties, each key
  once.  A number is the rational a finite double denotes.
\<close>

datatype js_value =
    VUndefined
  | VNull
  | VBool bool
  | VNum rat
  | VStr js_string
  | VArr "js_value list"
  | VObj "(js_string \<times> js_value) list"

datatype js_error = TypeError | SyntaxError

text \<open>
  What the script takes from the JavaScript engine and the browser and does not define
  itself.  \<open>Date_getTime s\<close> is the time value of \<^verbatim>\<open>new Date(s)\<close>, \<open>None\<close> for an
  invalid date.  \<open>Number_toString\<close> prints a number that is not an integer below \<open>2^53\<close>
  in size (the shortest digits that read back as the same double), \<open>Object_toString\<close> an
  array or an object.  \<open>coerced_percent_text\<close> is the text of
  \<^verbatim>\<open>total > 0 ? (current / total) * 100 : 0\<close> when an operand is not a number and the
  engine coerces it.
\<close>

record platform =
  JSON_parse :: "js_string \<Rightarrow> js_error + js_value"
  JSON_stringify :: "js_value \<Rightarrow> js_string"
  Date_getTime :: "js_string \<Rightarrow> int option"
  Number_toString :: "rat \<Rightarrow> js_string"
  Object_toString :: "js_value \<Rightarrow> js_string"
  coerced_percent_text :: "js_value \<Rightarrow> js_value \<Rightarrow> js_string"

definition number_text :: "platform \<Rightarrow> rat \<Rightarrow> js_string" where
  "number_text P r =
     (if r = of_int \<lfloor>r\<rfloor> \<and> \<bar>r\<bar> < 2 ^ 53 then int_text \<lfloor>r\<rfloor> else Number_toString P r)"

text \<open>String conversion, as a template literal applies it to an interpolated value.\<close>

fun ToString :: "platform \<Rightarrow> js_value \<Rightarrow> js_string" where
  "ToString P VUndefined = ustr ''undefined''"
| "ToString P VNull = ustr ''null''"
| "ToString P (VBool b) = (if b then ustr ''true'' else ustr ''false'')"
| "ToString P (VNum r) = number_text P r"
| "ToString P (VStr s) = s"
| "ToString P (VArr xs) = Object_toString P (VArr xs)"
| "ToString P (VObj kvs) = Object_toString P (VObj kvs)"

text \<open>Truthiness, as \<^verbatim>\<open>||\<close> and \<^verbatim>\<open>!\<close> test it.\<close>

fun truthy :: "js_value \<Rightarrow> bool" where
  "truthy VUndefined = False"
| "truthy VNull = False"
| "truthy (VBool b) = b"
| "truthy (VNum r) = (r \<noteq> 0)"
| "truthy (VStr s) = (s \<noteq> [])"
| "truthy (VArr xs) = True"
| "truthy (VObj kvs) = True"

text \<open>
  Reading \<^verbatim>\<open>message.key\<close> for the keys the script reads (\<^verbatim>\<open>type\<close>, \<^verbatim>\<open>current\<close>,
  \<^verbatim>\<open>total\<close>, \<^verbatim>\<open>count\<close>, \<^verbatim>\<open>message\<close>): a \<^verbatim>\<open>TypeError\<close> on \<^verbatim>\<open>null\<close> and
  \<^verbatim>\<open>undefined\<close>, the own property of an object, and \<^verbatim>\<open>undefined\<close> otherwise, since no
  prototype defines one of these keys.
\<close>

definition own_property :: "(js_string \<times> js_value) list \<Rightarrow> js_string \<Rightarrow> js_value" where
  "own_property kvs k = (case map_of kvs k of None \<Rightarrow> VUndefined | Some v \<Rightarrow> v)"

fun get_property :: "js_value \<Rightarrow> js_string \<Rightarrow> js_error + js_value" where
  "get_property VUndefined k = Inl TypeError"
| "get_property VNull k = Inl TypeError"
| "get_property (VObj kvs) k = Inr (own_property kvs k)"
| "get_property (VBool b) k = Inr VUndefined"
| "get_property (VNum r) k = Inr VUndefined"
| "get_property (VStr s) k = Inr VUndefined"
| "get_property (VArr xs) k = Inr VUndefined"


section \<open>The page as the script sees it\<close>

text \<open>The labels, alerts and status texts of the script, as UTF-16 code units.\<close>

definition TEXT_START :: js_string where
  "TEXT_START = [55357, 56960] @ ustr '' '' @ [1053, 1072, 1095, 1072, 1090, 1100] @ ustr '' ''
     @ [1082, 1086, 1087, 1080, 1088, 1086, 1074, 1072, 1085, 1080, 1077]"

definition TEXT_COPY_MORE :: js_string where
  "TEXT_COPY_MORE = [55357, 56960] @ ustr '' ''
     @ [1050, 1086, 1087, 1080, 1088, 1086, 1074, 1072, 1090, 1100] @ ustr '' '' @ [1077, 1097, 1105]"

definition TEXT_RETRY :: js_string where
  "TEXT_RETRY = [55357, 56960] @ ustr '' ''
     @ [1055, 1086, 1087, 1088, 1086, 1073, 1086, 1074, 1072, 1090, 1100] @ ustr '' ''
     @ [1089, 1085, 1086, 1074, 1072]"

definition TEXT_RESTART :: js_string where
  "TEXT_RESTART = [55357, 56960] @ ustr '' '' @ [1053, 1072, 1095, 1072, 1090, 1100] @ ustr '' ''
     @ [1079, 1072, 1085, 1086, 1074, 1086]"

definition ALERT_GROUP_FIELDS :: js_string where
  "ALERT_GROUP_FIELDS = [1042, 1074, 1077, 1076, 1080, 1090, 1077] @ ustr '' ''
     @ [1085, 1072, 1079, 1074, 1072, 1085, 1080, 1077] @ ustr '' '' @ [1080] @ ustr '' ID ''
     @ [1075, 1088, 1091, 1087, 1087, 1099]"

definition CONFIRM_DELETE :: js_string where
  "CONFIRM_DELETE = [1059, 1076, 1072, 1083, 1080, 1090, 1100] @ ustr '' '' @ [1101, 1090, 1086]
     @ ustr '' '' @ [1089, 1086, 1086, 1073, 1097, 1077, 1089, 1090, 1074, 1086] @ ustr ''?''"

definition ALERT_GROUP_ID :: js_string where
  "ALERT_GROUP_ID = [1042, 1074, 1077, 1076, 1080, 1090, 1077] @ ustr '' ''
     @ [1085, 1072, 1079, 1074, 1072, 1085, 1080, 1077] @ ustr '' '' @ [1080, 1083, 1080]
     @ ustr '' ID '' @ [1075, 1088, 1091, 1087, 1087, 1099] @ ustr '' VK''"

definition ALERT_DATES :: js_string where
  "ALERT_DATES = [1044, 1072, 1090, 1072] @ ustr '' '' @ [1085, 1072, 1095, 1072, 1083, 1072]
     @ ustr '' '' @ [1076, 1086, 1083, 1078, 1085, 1072] @ ustr '' '' @ [1073, 1099, 1090, 1100]
     @ ustr '' '' @ [1088, 1072, 1085, 1100, 1096, 1077] @ ustr '' '' @ [1076, 1072, 1090, 1099]
     @ ustr '' '' @ [1086, 1082, 1086, 1085, 1095, 1072, 1085, 1080, 1103]"

definition ALERT_COUNT :: js_string where
  "ALERT_COUNT = [1050, 1086, 1083, 1080, 1095, 1077, 1089, 1090, 1074, 1086] @ ustr '' ''
     @ [1087, 1086, 1089, 1090, 1086, 1074] @ ustr '' '' @ [1076, 1086, 1083, 1078, 1085, 1086]
     @ ustr '' '' @ [1073, 1099, 1090, 1100] @ ustr '' '' @ [1086, 1090] @ ustr '' 1 ''
     @ [1076, 1086] @ ustr '' 100''"

definition ICON_PROCESSING :: js_string where
  "ICON_PROCESSING = [9203]"

definition TEXT_PROCESSING :: js_string where
  "TEXT_PROCESSING = [1050, 1086, 1087, 1080, 1088, 1086, 1074, 1072, 1085, 1080, 1077]
     @ ustr '' '' @ [1087, 1086, 1089, 1090, 1086, 1074] @ ustr ''...''"

definition ICON_SUCCESS :: js_string where
  "ICON_SUCCESS = [9989]"

definition SUCCESS_PREFIX :: js_string where
  "SUCCESS_PREFIX = [1057, 1082, 1086, 1087, 1080, 1088, 1086, 1074, 1072, 1085, 1086] @ ustr '' ''"

definition SUCCESS_SUFFIX :: js_string where
  "SUCCESS_SUFFIX = ustr '' '' @ [1087, 1086, 1089, 1090, 1086, 1074] @ ustr ''!''"

definition ICON_ERROR :: js_string where
  "ICON_ERROR = [10060]"

definition TEXT_ERROR_DEFAULT :: js_string where
  "TEXT_ERROR_DEFAULT = [1054, 1096, 1080, 1073, 1082, 1072] @ ustr '' ''
     @ [1082, 1086, 1087, 1080, 1088, 1086, 1074, 1072, 1085, 1080, 1103]"

definition SAVED_GROUPS_KEY :: js_string where
  "SAVED_GROUPS_KEY = ustr ''vk_saved_groups''"

text \<open>
  The state the handlers read and write: the \<^verbatim>\<open>value\<close> of each form control, the class
  list and texts of the status area, the host's main button (label, visibility and the
  click handlers registered so far), the shortcut list with its persisted copy and its
  view, and the calls made to the host, in order.  An assignment to a DOM property stores
  the assigned text: what the browser makes of it afterwards (sanitising a control's
  value against attributes of the markup, dropping a style value it cannot parse) is
  outside the script and outside the model.
\<close>

datatype css_class = C_hidden | C_processing | C_success | C_error

datatype element = E_form | E_statusDiv | E_newGroupNameInput

datatype host_call =
    ShowAlert js_string
  | ShowConfirm js_string
  | HapticNotification js_string
  | HapticSelectionChanged
  | SendData js_string
  | ScrollIntoView element
  | Focus element

text \<open>
  The two functions the script registers with \<^verbatim>\<open>mainButton.onClick\<close>: \<^verbatim>\<open>handleSubmit\<close>
  and the closure \<^verbatim>\<open>showSuccess\<close> creates.
\<close>

datatype click_handler = H_handleSubmit | H_resetAfterSuccess

record saved_group =
  name :: js_string
  id' :: js_string

record app_state =
  groupIdInput_value :: js_string
  startDateInput_value :: js_string
  endDateInput_value :: js_string
  countInput_value :: js_string
  countRange_value :: js_string
  targetChatSelect_value :: js_string
  statusDiv_classList :: "css_class set"
  status_icon_textContent :: js_string
  status_text_textContent :: js_string
  progressFill_style_width :: js_string
  progressText_textContent :: js_string
  mainButton_text :: js_string
  mainButton_isVisible :: bool
  mainButton_clickHandlers :: "click_handler list"
  savedGroups :: "saved_group list"
  localStorage :: "js_string \<rightharpoonup> js_string"
  groupsList_classList :: "css_class set"
  groupsList_innerHTML :: js_string
  noGroupsHint_classList :: "css_class set"
  addGroupForm_classList :: "css_class set"
  newGroupNameInput_value :: js_string
  newGroupIdInput_value :: js_string
  initData_user_id :: js_value
  host_calls :: "host_call list"

definition host_call :: "host_call \<Rightarrow> app_state \<Rightarrow> app_state" where
  "host_call c s = s\<lparr>host_calls := host_calls s @ [c]\<rparr>"

definition localStorage_setItem :: "js_string \<Rightarrow> js_string \<Rightarrow> app_state \<Rightarrow> app_state" where
  "localStorage_setItem k v s = s\<lparr>localStorage := (localStorage s)(k \<mapsto> v)\<rparr>"

text \<open>
  \<^verbatim>\<open>mainButton.onClick(f)\<close> adds \<open>f\<close> to the handlers of the button's click event; a click
  calls them in the order they were added.
\<close>

definition mainButton_onClick :: "click_handler \<Rightarrow> app_state \<Rightarrow> app_state" where
  "mainButton_onClick h s = s\<lparr>mainButton_clickHandlers := mainButton_clickHandlers s @ [h]\<rparr>"


section \<open>The count controls\<close>

text \<open>
  The two \<^verbatim>\<open>input\<close> listeners of \<^verbatim>\<open>setupEventListeners\<close> (the same two listeners stand
  at top level in the second copy).  \<^verbatim>\<open>e.target.value\<close> is the value of the control the
  event fired on.
\<close>

definition countRange_oninput :: "app_state \<Rightarrow> app_state" where
  "countRange_oninput s = s\<lparr>countInput_value := countRange_value s\<rparr>"

definition countInput_oninput :: "app_state \<Rightarrow> app_state" where
  "countInput_oninput s =
     (let value = (case parseInt (countInput_value s) of
                     None \<Rightarrow> 1
                   | Some n \<Rightarrow> if n = 0 then 1 else n);
          value = max 1 (min 100 value)
      in s\<lparr>countRange_value := int_text value, countInput_value := int_text value\<rparr>)"

text \<open>An edit: the user gives the control a new value, then its listener runs.\<close>

definition edit_countRange :: "js_string \<Rightarrow> app_state \<Rightarrow> app_state" where
  "edit_countRange v s = countRange_oninput (s\<lparr>countRange_value := v\<rparr>)"

definition edit_countInput :: "js_string \<Rightarrow> app_state \<Rightarrow> app_state" where
  "edit_countInput v s = countInput_oninput (s\<lparr>countInput_value := v\<rparr>)"

section \<open>The shortcut store\<close>

text \<open>
  \<^verbatim>\<open>escapeHtml\<close> assigns the text to \<^verbatim>\<open>textContent\<close> of a fresh \<^verbatim>\<open>div\<close> and reads
  \<^verbatim>\<open>innerHTML\<close> back: the HTML serialisation of one text node, which replaces
  \<^verbatim>\<open>&\<close>, \<^verbatim>\<open><\<close>, \<^verbatim>\<open>>\<close> and the no-break space and leaves every other code unit.
\<close>

definition escape_unit :: "nat \<Rightarrow> js_string" where
  "escape_unit c =
     (if c = 38 then ustr ''&amp;''
      else if c = 60 then ustr ''&lt;''
      else if c = 62 then ustr ''&gt;''
      else if c = 160 then ustr ''&nbsp;''
      else [c])"

definition escapeHtml :: "js_string \<Rightarrow> js_string" where
  "escapeHtml text = concat (map escape_unit text)"

text \<open>The literal parts of the template of \<^verbatim>\<open>renderSavedGroups\<close>, between its five holes.\<close>

definition TPL1 :: js_string where
  \<open>TPL1 = [10] @ ustr ''        <div class="group-item" onclick="selectGroup(''\<close>

definition TPL2 :: js_string where
  \<open>TPL2 = ustr '')">'' @ [10] @ ustr ''            <div class="group-info">'' @ [10]
     @ ustr ''                <div class="group-name">''\<close>

definition TPL3 :: js_string where
  \<open>TPL3 = ustr ''</div>'' @ [10] @ ustr ''                <div class="group-id">''\<close>

definition TPL4 :: js_string where
  \<open>TPL4 = ustr ''</div>'' @ [10] @ ustr ''            </div>'' @ [10]
     @ ustr ''            <div class="group-actions">'' @ [10]
     @ ustr ''                <button class="btn-delete" onclick="event.stopPropagation(); deleteGroup(''\<close>

definition TPL5 :: js_string where
  \<open>TPL5 = ustr '')">'' @ [55357, 56785] @ ustr ''</button>'' @ [10] @ ustr ''            </div>''
     @ [10] @ ustr ''        </div>'' @ [10] @ ustr ''    ''\<close>

definition group_item :: "nat \<Rightarrow> saved_group \<Rightarrow> js_string" where
  "group_item index g =
     TPL1 @ nat_digits index @ TPL2 @ escapeHtml (name g) @ TPL3 @ escapeHtml (id' g)
       @ TPL4 @ nat_digits index @ TPL5"

text \<open>\<^verbatim>\<open>savedGroups.map((group, index) => ...).join('')\<close>\<close>

definition groups_markup :: "saved_group list \<Rightarrow> js_string" where
  "groups_markup groups = concat (map (\<lambda>(index, g). group_item index g) (enumerate 0 groups))"

definition renderSavedGroups :: "app_state \<Rightarrow> app_state" where
  "renderSavedGroups s =
     (if length (savedGroups s) = 0
      then s\<lparr>groupsList_classList := insert C_hidden (groupsList_classList s),
             noGroupsHint_classList := noGroupsHint_classList s - {C_hidden}\<rparr>
      else s\<lparr>groupsList_classList := groupsList_classList s - {C_hidden},
             noGroupsHint_classList := insert C_hidden (noGroupsHint_classList s),
             groupsList_innerHTML := groups_markup (savedGroups s)\<rparr>)"

definition showAddGroupForm :: "app_state \<Rightarrow> app_state" where
  "showAddGroupForm s =
     host_call (Focus E_newGroupNameInput)
       (s\<lparr>addGroupForm_classList := addGroupForm_classList s - {C_hidden}\<rparr>)"

definition hideAddGroupForm :: "app_state \<Rightarrow> app_state" where
  "hideAddGroupForm s =
     s\<lparr>addGroupForm_classList := insert C_hidden (addGroupForm_classList s),
       newGroupNameInput_value := [],
       newGroupIdInput_value := []\<rparr>"

text \<open>
  The shortcut list as the value \<^verbatim>\<open>JSON.stringify\<close> receives and \<^verbatim>\<open>JSON.parse\<close> gives
  back: an array of objects with the string properties \<^verbatim>\<open>name\<close> and \<^verbatim>\<open>id\<close>.
\<close>

definition groups_value :: "saved_group list \<Rightarrow> js_value" where
  "groups_value groups =
     VArr (map (\<lambda>g. VObj [(ustr ''name'', VStr (name g)), (ustr ''id'', VStr (id' g))]) groups)"

definition saveGroup :: "platform \<Rightarrow> app_state \<Rightarrow> app_state" where
  "saveGroup P s =
     (let name = trim (newGroupNameInput_value s);
          id = trim (newGroupIdInput_value s)
      in if name = [] \<or> id = [] then host_call (ShowAlert ALERT_GROUP_FIELDS) s
         else
           (let s1 = s\<lparr>savedGroups := savedGroups s @ [\<lparr>name = name, id' = id\<rparr>]\<rparr>;
                s2 = localStorage_setItem SAVED_GROUPS_KEY
                       (JSON_stringify P (groups_value (savedGroups s1))) s1;
                s3 = renderSavedGroups s2;
                s4 = hideAddGroupForm s3
            in host_call (HapticNotification (ustr ''success'')) s4))"

text \<open>
  Line 45 of the script, run when the page loads:
  \<^verbatim>\<open>JSON.parse(localStorage.getItem(SAVED_GROUPS_KEY) || '[]')\<close>.
\<close>

definition load_savedGroups :: "platform \<Rightarrow> (js_string \<rightharpoonup> js_string) \<Rightarrow> js_error + js_value" where
  "load_savedGroups P storage =
     JSON_parse P (case storage SAVED_GROUPS_KEY of
                     None \<Rightarrow> ustr ''[]''
                   | Some v \<Rightarrow> if v = [] then ustr ''[]'' else v)"

text \<open>
  \<^verbatim>\<open>selectGroup(index)\<close>: \<^verbatim>\<open>savedGroups[index]\<close> is \<^verbatim>\<open>undefined\<close> when no element
  has that index, and reading \<^verbatim>\<open>.id\<close> of it throws.  The result is the error thrown,
  if any, and the state the handler leaves.
\<close>

definition selectGroup :: "int \<Rightarrow> app_state \<Rightarrow> js_error option \<times> app_state" where
  "selectGroup index s =
     (let group = (if 0 \<le> index \<and> index < int (length (savedGroups s))
                   then Some (savedGroups s ! nat index) else None)
      in case group of
           None \<Rightarrow> (Some TypeError, s)
         | Some g \<Rightarrow>
             (None, host_call (ScrollIntoView E_form)
                      (host_call HapticSelectionChanged (s\<lparr>groupIdInput_value := id' g\<rparr>))))"

text \<open>
  \<^verbatim>\<open>savedGroups.splice(index, 1)\<close>: a negative start counts from the end, a start past
  the end removes nothing.
\<close>

definition splice1 :: "int \<Rightarrow> 'a list \<Rightarrow> 'a list" where
  "splice1 index xs =
     (let len = int (length xs);
          start = (if index < 0 then max (len + index) 0 else min index len)
      in take (nat start) xs @ drop (nat start + 1) xs)"

text \<open>
  \<^verbatim>\<open>deleteGroup(index)\<close> asks the host for a confirmation; \<open>confirmed\<close> is the answer
  the host passes to the callback.
\<close>

definition deleteGroup :: "platform \<Rightarrow> int \<Rightarrow> bool \<Rightarrow> app_state \<Rightarrow> app_state" where
  "deleteGroup P index confirmed s =
     (let s0 = host_call (ShowConfirm CONFIRM_DELETE) s
      in if confirmed
         then
           (let s1 = s0\<lparr>savedGroups := splice1 index (savedGroups s0)\<rparr>;
                s2 = localStorage_setItem SAVED_GROUPS_KEY
                       (JSON_stringify P (groups_value (savedGroups s1))) s1;
                s3 = renderSavedGroups s2
            in host_call (HapticNotification (ustr ''warning'')) s3)
         else s0)"


section \<open>Validation and submission\<close>

text \<open>
  \<^verbatim>\<open>startDate > endDate\<close> on two \<^verbatim>\<open>Date\<close> objects compares their time values, and is
  false when either date is invalid.
\<close>

definition date_gt :: "int option \<Rightarrow> int option \<Rightarrow> bool" where
  "date_gt a b = (case a of None \<Rightarrow> False | Some x \<Rightarrow> (case b of None \<Rightarrow> False | Some y \<Rightarrow> y < x))"

text \<open>
  \<^verbatim>\<open>validateForm\<close> returns its boolean together with the state, in which the alert it
  raised, if any, is recorded.
\<close>

definition validateForm :: "platform \<Rightarrow> app_state \<Rightarrow> bool \<times> app_state" where
  "validateForm P s =
     (let groupId = trim (groupIdInput_value s);
          startDate = Date_getTime P (startDateInput_value s);
          endDate = Date_getTime P (endDateInput_value s)
      in if groupId = [] then (False, host_call (ShowAlert ALERT_GROUP_ID) s)
         else if date_gt startDate endDate then (False, host_call (ShowAlert ALERT_DATES) s)
         else
           (case parseInt (countInput_value s) of
              None \<Rightarrow> (False, host_call (ShowAlert ALERT_COUNT) s)
            | Some count \<Rightarrow>
                if count < 1 \<or> 100 < count then (False, host_call (ShowAlert ALERT_COUNT) s)
                else (True, s)))"

definition showProcessing :: "app_state \<Rightarrow> app_state" where
  "showProcessing s =
     host_call (ScrollIntoView E_statusDiv)
       (s\<lparr>statusDiv_classList :=
            insert C_processing (statusDiv_classList s - {C_hidden}) - {C_success, C_error},
          status_icon_textContent := ICON_PROCESSING,
          status_text_textContent := TEXT_PROCESSING,
          progressFill_style_width := ustr ''0%'',
          progressText_textContent := ustr ''0/0'',
          mainButton_isVisible := False\<rparr>)"

text \<open>
  The request \<^verbatim>\<open>handleSubmit\<close> builds.  \<^verbatim>\<open>parseInt\<close> cannot give \<^verbatim>\<open>NaN\<close> here, after
  \<^verbatim>\<open>validateForm\<close> has accepted the same text; \<^verbatim>\<open>JSON.stringify\<close> would print it as
  \<^verbatim>\<open>null\<close>.
\<close>

definition submit_data :: "app_state \<Rightarrow> js_value" where
  "submit_data s =
     VObj [(ustr ''action'', VStr (ustr ''copy_posts'')),
           (ustr ''groupId'', VStr (trim (groupIdInput_value s))),
           (ustr ''startDate'', VStr (startDateInput_value s)),
           (ustr ''endDate'', VStr (endDateInput_value s)),
           (ustr ''count'', (case parseInt (countInput_value s) of
                               None \<Rightarrow> VNull
                             | Some n \<Rightarrow> VNum (of_int n))),
           (ustr ''targetChat'', VStr (targetChatSelect_value s)),
           (ustr ''userId'', (if truthy (initData_user_id s) then initData_user_id s else VNull))]"

definition handleSubmit :: "platform \<Rightarrow> app_state \<Rightarrow> app_state" where
  "handleSubmit P s =
     (case validateForm P s of
        (ok, s1) \<Rightarrow>
          if ok then showProcessing (host_call (SendData (JSON_stringify P (submit_data s1))) s1)
          else s1)"

section \<open>Progress, success and error\<close>

text \<open>
  The text of \<^verbatim>\<open>${percent}\<close> in \<^verbatim>\<open>updateProgress\<close>, where \<^verbatim>\<open>percent\<close> is
  \<^verbatim>\<open>total > 0 ? (current / total) * 100 : 0\<close>.  On numbers the quotient is rounded to a
  double, and so is its product with 100; an infinite quotient stays infinite.
\<close>

definition percent_text :: "platform \<Rightarrow> js_value \<Rightarrow> js_value \<Rightarrow> js_string" where
  "percent_text P current total' =
     (case total' of
        VNum t \<Rightarrow>
          if 0 < t
          then (case current of
                  VNum c \<Rightarrow>
                    if double_overflows (c / t) then infinity_text (c / t)
                    else if double_overflows (round_double (c / t) * 100)
                    then infinity_text (round_double (c / t) * 100)
                    else number_text P (round_double (round_double (c / t) * 100))
                | _ \<Rightarrow> coerced_percent_text P current total')
          else number_text P 0
      | _ \<Rightarrow> coerced_percent_text P current total')"

definition updateProgress :: "platform \<Rightarrow> js_value \<Rightarrow> js_value \<Rightarrow> app_state \<Rightarrow> app_state" where
  "updateProgress P current total' s =
     s\<lparr>progressFill_style_width := percent_text P current total' @ ustr ''%'',
       progressText_textContent := ToString P current @ ustr ''/'' @ ToString P total'\<rparr>"

definition showSuccess :: "platform \<Rightarrow> js_value \<Rightarrow> app_state \<Rightarrow> app_state" where
  "showSuccess P count s =
     mainButton_onClick H_resetAfterSuccess
       (s\<lparr>statusDiv_classList := insert C_success (statusDiv_classList s - {C_processing, C_error}),
          status_icon_textContent := ICON_SUCCESS,
          status_text_textContent := SUCCESS_PREFIX @ ToString P count @ SUCCESS_SUFFIX,
          mainButton_text := TEXT_COPY_MORE,
          mainButton_isVisible := True\<rparr>)"

text \<open>The closure \<^verbatim>\<open>showSuccess\<close> registers as a click handler.\<close>

definition resetAfterSuccess :: "app_state \<Rightarrow> app_state" where
  "resetAfterSuccess s =
     s\<lparr>statusDiv_classList := insert C_hidden (statusDiv_classList s),
       mainButton_text := TEXT_START\<rparr>"

definition showError :: "platform \<Rightarrow> js_value \<Rightarrow> app_state \<Rightarrow> app_state" where
  "showError P message s =
     s\<lparr>statusDiv_classList := insert C_error (statusDiv_classList s - {C_processing, C_success}),
       status_icon_textContent := ICON_ERROR,
       status_text_textContent :=
         ToString P (if truthy message then message else VStr TEXT_ERROR_DEFAULT),
       mainButton_text := TEXT_RETRY,
       mainButton_isVisible := True\<rparr>"

text \<open>
  The body of the \<^verbatim>\<open>try\<close> block of the message listener, after \<^verbatim>\<open>JSON.parse\<close>: a
  property read may throw, and does so before anything is written.
\<close>

definition message_dispatch :: "platform \<Rightarrow> js_value \<Rightarrow> app_state \<Rightarrow> js_error + app_state" where
  "message_dispatch P message s =
     (case get_property message (ustr ''type'') of
        Inl e \<Rightarrow> Inl e
      | Inr ty \<Rightarrow>
          if ty = VStr (ustr ''progress'') then
            (case get_property message (ustr ''current'') of
               Inl e \<Rightarrow> Inl e
             | Inr current \<Rightarrow>
                 (case get_property message (ustr ''total'') of
                    Inl e \<Rightarrow> Inl e
                  | Inr total' \<Rightarrow> Inr (updateProgress P current total' s)))
          else if ty = VStr (ustr ''success'') then
            (case get_property message (ustr ''count'') of
               Inl e \<Rightarrow> Inl e
             | Inr count \<Rightarrow> Inr (showSuccess P count s))
          else if ty = VStr (ustr ''error'') then
            (case get_property message (ustr ''message'') of
               Inl e \<Rightarrow> Inl e
             | Inr m \<Rightarrow> Inr (showError P m s))
          else Inr s)"

text \<open>
  The listener of \<^verbatim>\<open>window\<close>'s message event; \<open>data\<close> is \<^verbatim>\<open>event.data\<close>.  The
  \<^verbatim>\<open>catch\<close> clause is empty.
\<close>

definition on_message :: "platform \<Rightarrow> js_value \<Rightarrow> app_state \<Rightarrow> app_state" where
  "on_message P data s =
     (case data of
        VStr str \<Rightarrow>
          (case JSON_parse P str of
             Inl e \<Rightarrow> s
           | Inr message \<Rightarrow>
               (case message_dispatch P message s of
                  Inl e \<Rightarrow> s
                | Inr s' \<Rightarrow> s'))
      | _ \<Rightarrow> s)"

text \<open>A click on the main button: every registered handler runs, in order.\<close>

fun run_handler :: "platform \<Rightarrow> click_handler \<Rightarrow> app_state \<Rightarrow> app_state" where
  "run_handler P H_handleSubmit s = handleSubmit P s"
| "run_handler P H_resetAfterSuccess s = resetAfterSuccess s"

definition mainButton_click :: "platform \<Rightarrow> app_state \<Rightarrow> app_state" where
  "mainButton_click P s = foldl (\<lambda>st h. run_handler P h st) s (mainButton_clickHandlers s)"

section \<open>The second copy of the script\<close>

text \<open>
  The second copy has no shortcut store.  Its listeners of the count controls, its
  \<^verbatim>\<open>validateForm\<close> and its \<^verbatim>\<open>updateProgress\<close> are the ones above, character for
  character; the functions that differ follow.
\<close>

definition showProcessing_2 :: "app_state \<Rightarrow> app_state" where
  "showProcessing_2 s =
     s\<lparr>statusDiv_classList :=
         insert C_processing (statusDiv_classList s - {C_hidden}) - {C_success, C_error},
       status_icon_textContent := ICON_PROCESSING,
       status_text_textContent := TEXT_PROCESSING,
       progressFill_style_width := ustr ''0%'',
       progressText_textContent := ustr ''0/0'',
       mainButton_isVisible := False\<rparr>"

definition handleSubmit_2 :: "platform \<Rightarrow> app_state \<Rightarrow> app_state" where
  "handleSubmit_2 P s =
     (case validateForm P s of
        (ok, s1) \<Rightarrow>
          if ok then showProcessing_2 (host_call (SendData (JSON_stringify P (submit_data s1))) s1)
          else s1)"

definition showSuccess_2 :: "platform \<Rightarrow> js_value \<Rightarrow> app_state \<Rightarrow> app_state" where
  "showSuccess_2 P count s =
     s\<lparr>statusDiv_classList := insert C_success (statusDiv_classList s - {C_processing, C_error}),
       status_icon_textContent := ICON_SUCCESS,
       status_text_textContent := SUCCESS_PREFIX @ ToString P count @ SUCCESS_SUFFIX\<rparr>"

definition showError_2 :: "platform \<Rightarrow> js_value \<Rightarrow> app_state \<Rightarrow> app_state" where
  "showError_2 P message s =
     s\<lparr>statusDiv_classList := insert C_error (statusDiv_classList s - {C_processing, C_success}),
       status_icon_textContent := ICON_ERROR,
       status_text_textContent :=
         ToString P (if truthy message then message else VStr TEXT_ERROR_DEFAULT),
       mainButton_text := TEXT_RESTART,
       mainButton_isVisible := True\<rparr>"

definition message_dispatch_2 :: "platform \<Rightarrow> js_value \<Rightarrow> app_state \<Rightarrow> js_error + app_state" where
  "message_dispatch_2 P message s =
     (case get_property message (ustr ''type'') of
        Inl e \<Rightarrow> Inl e
      | Inr ty \<Rightarrow>
          if ty = VStr (ustr ''progress'') then
            (case get_property message (ustr ''current'') of
               Inl e \<Rightarrow> Inl e
             | Inr current \<Rightarrow>
                 (case get_property message (ustr ''total'') of
                    Inl e \<Rightarrow> Inl e
                  | Inr total' \<Rightarrow> Inr (updateProgress P current total' s)))
          else if ty = VStr (ustr ''success'') then
            (case get_property message (ustr ''count'') of
               Inl e \<Rightarrow> Inl e
             | Inr count \<Rightarrow> Inr (showSuccess_2 P count s))
          else if ty = VStr (ustr ''error'') then
            (case get_property message (ustr ''message'') of
               Inl e \<Rightarrow> Inl e
             | Inr m \<Rightarrow> Inr (showError_2 P m s))
          else Inr s)"

definition on_message_2 :: "platform \<Rightarrow> js_value \<Rightarrow> app_state \<Rightarrow> app_state" where
  "on_message_2 P data s =
     (case data of
        VStr str \<Rightarrow>
          (case JSON_parse P str of
             Inl e \<Rightarrow> s
           | Inr message \<Rightarrow>
               (case message_dispatch_2 P message s of
                  Inl e \<Rightarrow> s
                | Inr s' \<Rightarrow> s'))
      | _ \<Rightarrow> s)"

text \<open>
  The second copy registers \<^verbatim>\<open>handleSubmit\<close> alone, so a click on its main button runs
  that one handler.
\<close>

definition mainButton_click_2 :: "platform \<Rightarrow> app_state \<Rightarrow> app_state" where
  "mainButton_click_2 P s = handleSubmit_2 P s"


section \<open>Notions of the specification\<close>

text \<open>The three tags the specification gives an inbound notification.\<close>

definition recognised_tags :: "js_value set" where
  "recognised_tags = {VStr (ustr ''progress''), VStr (ustr ''success''), VStr (ustr ''error'')}"

text \<open>
  The number of an edited count clamped into the interval from 1 to 100; a text with no
  number in it, and the number 0, count as 1.
\<close>

definition clamp_count :: "int option \<Rightarrow> int" where
  "clamp_count parsed =
     (case parsed of
        None \<Rightarrow> 1
      | Some k \<Rightarrow> if k = 0 then 1 else if k < 1 then 1 else if 100 < k then 100 else k)"

text \<open>
  The validation errors of the specification, and the alert by which the script reports
  each.
\<close>

datatype validation_error = EmptyGroupId | DateRangeInverted | CountOutOfRange

definition validation_alert :: "validation_error \<Rightarrow> js_string" where
  "validation_alert e =
     (case e of
        EmptyGroupId \<Rightarrow> ALERT_GROUP_ID
      | DateRangeInverted \<Rightarrow> ALERT_DATES
      | CountOutOfRange \<Rightarrow> ALERT_COUNT)"

definition count_in_range :: "int option \<Rightarrow> bool" where
  "count_in_range c = (case c of None \<Rightarrow> False | Some n \<Rightarrow> 1 \<le> n \<and> n \<le> 100)"

text \<open>
  \<^verbatim>\<open>startDate <= endDate\<close> on two dates: like every comparison it is false when either
  date is invalid.
\<close>

definition date_le :: "int option \<Rightarrow> int option \<Rightarrow> bool" where
  "date_le a b = (case a of None \<Rightarrow> False | Some x \<Rightarrow> (case b of None \<Rightarrow> False | Some y \<Rightarrow> x \<le> y))"

text \<open>
  Validation in the words of the specification: the group id is not empty after
  trimming, else \<open>EmptyGroupId\<close>; the start date is at most the end date, else
  \<open>DateRangeInverted\<close>; the count parses as an integer from 1 to 100, else
  \<open>CountOutOfRange\<close>.
\<close>

definition spec_validate :: "platform \<Rightarrow> app_state \<Rightarrow> validation_error option" where
  "spec_validate P s =
     (if trim (groupIdInput_value s) = [] then Some EmptyGroupId
      else if date_le (Date_getTime P (startDateInput_value s))
                (Date_getTime P (endDateInput_value s))
      then (if count_in_range (parseInt (countInput_value s)) then None
            else Some CountOutOfRange)
      else Some DateRangeInverted)"

text \<open>
  The same three checks with the second one as the script tests it: the start date is
  later than the end date.
\<close>

definition first_failure :: "platform \<Rightarrow> app_state \<Rightarrow> validation_error option" where
  "first_failure P s =
     (if trim (groupIdInput_value s) = [] then Some EmptyGroupId
      else if date_gt (Date_getTime P (startDateInput_value s))
                (Date_getTime P (endDateInput_value s))
      then Some DateRangeInverted
      else if count_in_range (parseInt (countInput_value s)) then None
      else Some CountOutOfRange)"

section \<open>A page and a platform for the examples\<close>

text \<open>
  A platform whose \<^verbatim>\<open>JSON.parse\<close> and \<^verbatim>\<open>JSON.stringify\<close> are cut down to the texts and
  values of the examples below (every other text is refused), whose dates are two days
  of 2024 and whose \<open>Number_toString\<close> knows the one double the examples print that is not
  an integer, the double next above 7.  The examples print no object and coerce nothing,
  so the last two fields are never reached.
\<close>

definition TEXT_GROUPS_1 :: js_string where
  \<open>TEXT_GROUPS_1 = ustr ''[{"name":"<script>","id":"club1"}]''\<close>

definition TEXT_GROUPS_2 :: js_string where
  \<open>TEXT_GROUPS_2 = ustr ''[{"name":"<script>","id":"club1"},{"name":"News","id":"club2"}]''\<close>

definition TEXT_MSG_PROGRESS :: js_string where
  \<open>TEXT_MSG_PROGRESS = ustr ''{"type":"progress","current":5,"total":10}''\<close>

definition TEXT_MSG_SUCCESS :: js_string where
  \<open>TEXT_MSG_SUCCESS = ustr ''{"type":"success","count":7}''\<close>

definition TEXT_MSG_ERROR :: js_string where
  \<open>TEXT_MSG_ERROR = ustr ''{"type":"error"}''\<close>

definition TEXT_MSG_UNKNOWN :: js_string where
  \<open>TEXT_MSG_UNKNOWN = ustr ''{"type":"unknown"}''\<close>

definition example_groups_1 :: "saved_group list" where
  "example_groups_1 = [\<lparr>name = ustr ''<script>'', id' = ustr ''club1''\<rparr>]"

definition example_groups_2 :: "saved_group list" where
  "example_groups_2 =
     [\<lparr>name = ustr ''<script>'', id' = ustr ''club1''\<rparr>, \<lparr>name = ustr ''News'', id' = ustr ''club2''\<rparr>]"

definition example_parse :: "js_string \<Rightarrow> js_error + js_value" where
  "example_parse str =
     (if str = ustr ''[]'' then Inr (VArr [])
      else if str = ustr ''null'' then Inr VNull
      else if str = TEXT_GROUPS_1 then Inr (groups_value example_groups_1)
      else if str = TEXT_GROUPS_2 then Inr (groups_value example_groups_2)
      else if str = TEXT_MSG_PROGRESS
        then Inr (VObj [(ustr ''type'', VStr (ustr ''progress'')),
                        (ustr ''current'', VNum 5), (ustr ''total'', VNum 10)])
      else if str = TEXT_MSG_SUCCESS
        then Inr (VObj [(ustr ''type'', VStr (ustr ''success'')), (ustr ''count'', VNum 7)])
      else if str = TEXT_MSG_ERROR then Inr (VObj [(ustr ''type'', VStr (ustr ''error''))])
      else if str = TEXT_MSG_UNKNOWN then Inr (VObj [(ustr ''type'', VStr (ustr ''unknown''))])
      else Inl SyntaxError)"

definition example_stringify :: "js_value \<Rightarrow> js_string" where
  "example_stringify v =
     (if v = VArr [] then ustr ''[]''
      else if v = groups_value example_groups_1 then TEXT_GROUPS_1
      else if v = groups_value example_groups_2 then TEXT_GROUPS_2
      else ustr ''null'')"

definition example_platform :: platform where
  "example_platform =
     \<lparr>JSON_parse = example_parse,
      JSON_stringify = example_stringify,
      Date_getTime = (\<lambda>str. if str = ustr ''2024-01-01'' then Some 1704067200000
                              else if str = ustr ''2024-01-08'' then Some 1704672000000
                              else None),
      Number_toString = (\<lambda>r. if r = 7881299347898369 / 1125899906842624
                              then ustr ''7.000000000000001'' else []),
      Object_toString = (\<lambda>v. []),
      coerced_percent_text = (\<lambda>c t. [])\<rparr>"

text \<open>
  A page as it stands after loading with one saved shortcut, with the form filled in and
  the fields of the add-shortcut form typed into.
\<close>

definition example_state :: app_state where
  "example_state =
     \<lparr>groupIdInput_value = ustr ''durov'',
      startDateInput_value = ustr ''2024-01-01'',
      endDateInput_value = ustr ''2024-01-08'',
      countInput_value = ustr ''10'',
      countRange_value = ustr ''10'',
      targetChatSelect_value = ustr ''me'',
      statusDiv_classList = {C_hidden},
      status_icon_textContent = [],
      status_text_textContent = [],
      progressFill_style_width = [],
      progressText_textContent = [],
      mainButton_text = TEXT_START,
      mainButton_isVisible = True,
      mainButton_clickHandlers = [H_handleSubmit],
      savedGroups = example_groups_1,
      localStorage = [SAVED_GROUPS_KEY \<mapsto> TEXT_GROUPS_1],
      groupsList_classList = {},
      groupsList_innerHTML = groups_markup example_groups_1,
      noGroupsHint_classList = {C_hidden},
      addGroupForm_classList = {},
      newGroupNameInput_value = ustr '' News '',
      newGroupIdInput_value = ustr ''club2'',
      initData_user_id = VNum 42,
      host_calls = []\<rparr>"


section \<open>Texts of numbers\<close>




section \<open>Rounding to a double\<close>






















section \<open>Progress updates\<close>




section \<open>Inbound messages\<close>

lemma tag_distinct:
  "ustr ''progress'' \<noteq> ustr ''success''" "ustr ''progress'' \<noteq> ustr ''error''"
  "ustr ''success'' \<noteq> ustr ''error''" "ustr ''success'' \<noteq> ustr ''progress''"
  "ustr ''error'' \<noteq> ustr ''progress''" "ustr ''error'' \<noteq> ustr ''success''"
  by (simp_all add: ustr_def)

lemma message_dispatch_unrecognised:
  "get_property m (ustr ''type'') = Inr ty \<Longrightarrow> ty \<notin> recognised_tags \<Longrightarrow>
     message_dispatch P m s = Inr s \<and> message_dispatch_2 P m s = Inr s"
  by (simp add: message_dispatch_def message_dispatch_2_def recognised_tags_def)

lemma message_dispatch_throws:
  "get_property m (ustr ''type'') = Inl e \<Longrightarrow>
     message_dispatch P m s = Inl e \<and> message_dispatch_2 P m s = Inl e"
  by (simp add: message_dispatch_def message_dispatch_2_def)


lemma on_message_2_object:
  assumes "JSON_parse P str = Inr (VObj kvs)"
  shows "on_message_2 P (VStr str) s =
           (if own_property kvs (ustr ''type'') = VStr (ustr ''progress'')
            then updateProgress P (own_property kvs (ustr ''current''))
                   (own_property kvs (ustr ''total'')) s
            else if own_property kvs (ustr ''type'') = VStr (ustr ''success'')
            then showSuccess_2 P (own_property kvs (ustr ''count'')) s
            else if own_property kvs (ustr ''type'') = VStr (ustr ''error'')
            then showError_2 P (own_property kvs (ustr ''message'')) s
            else s)"
  using assms by (simp add: on_message_2_def message_dispatch_2_def)



text \<open>The texts of the examples are told apart by their first code units.\<close>

lemma example_parse_values:
  "JSON_parse example_platform (ustr ''hello'') = Inl SyntaxError"
  "JSON_parse example_platform (ustr ''null'') = Inr VNull"
  "JSON_parse example_platform TEXT_MSG_UNKNOWN = Inr (VObj [(ustr ''type'', VStr (ustr ''unknown''))])"
  "JSON_parse example_platform TEXT_MSG_ERROR = Inr (VObj [(ustr ''type'', VStr (ustr ''error''))])"
  "JSON_parse example_platform TEXT_MSG_SUCCESS
     = Inr (VObj [(ustr ''type'', VStr (ustr ''success'')), (ustr ''count'', VNum 7)])"
  "JSON_parse example_platform TEXT_MSG_PROGRESS
     = Inr (VObj [(ustr ''type'', VStr (ustr ''progress'')),
                  (ustr ''current'', VNum 5), (ustr ''total'', VNum 10)])"
  "JSON_parse example_platform TEXT_GROUPS_2 = Inr (groups_value example_groups_2)"
  "JSON_parse example_platform (ustr ''[]'') = Inr (VArr [])"
  by (simp_all add: example_platform_def example_parse_def TEXT_GROUPS_1_def TEXT_GROUPS_2_def
      TEXT_MSG_PROGRESS_def TEXT_MSG_SUCCESS_def TEXT_MSG_ERROR_def TEXT_MSG_UNKNOWN_def ustr_def)

text \<open>
  C4.  A message whose payload is not a string, or is a string that \<^verbatim>\<open>JSON.parse\<close>
  refuses, or parses to a value whose \<^verbatim>\<open>type\<close> cannot be read or is none of the three
  tags, leaves the whole state as it was, in both copies of the script: nothing is
  written, no alert is raised and no error leaves the listener.
\<close>

theorem on_message_ignores_unrecognised:
  assumes "(\<forall>str. data \<noteq> VStr str)
     \<or> (\<exists>str e. data = VStr str \<and> JSON_parse P str = Inl e)
     \<or> (\<exists>str m e. data = VStr str \<and> JSON_parse P str = Inr m
            \<and> get_property m (ustr ''type'') = Inl e)
     \<or> (\<exists>str m ty. data = VStr str \<and> JSON_parse P str = Inr m
            \<and> get_property m (ustr ''type'') = Inr ty \<and> ty \<notin> recognised_tags)"
  shows "on_message P data s = s \<and> on_message_2 P data s = s"
  using assms
proof (elim disjE exE conjE)
  assume "\<forall>str. data \<noteq> VStr str"
  then show ?thesis
    by (cases data) (simp_all add: on_message_def on_message_2_def)
next
  fix str e
  assume "data = VStr str" "JSON_parse P str = Inl e"
  then show ?thesis
    by (simp add: on_message_def on_message_2_def)
next
  fix str m e
  assume "data = VStr str" "JSON_parse P str = Inr m" "get_property m (ustr ''type'') = Inl e"
  then show ?thesis
    using message_dispatch_throws [of m e P s]
    by (simp add: on_message_def on_message_2_def)
next
  fix str m ty
  assume "data = VStr str" "JSON_parse P str = Inr m"
    "get_property m (ustr ''type'') = Inr ty" "ty \<notin> recognised_tags"
  then show ?thesis
    using message_dispatch_unrecognised [of m ty P s]
    by (simp add: on_message_def on_message_2_def)
qed

theorem on_message_ignores_unrecognised_example:
  "on_message example_platform (VNum 5) example_state = example_state
   \<and> on_message example_platform (VStr (ustr ''hello'')) example_state = example_state
   \<and> on_message example_platform (VStr (ustr ''null'')) example_state = example_state
   \<and> on_message example_platform (VStr TEXT_MSG_UNKNOWN) example_state = example_state
   \<and> on_message_2 example_platform (VStr TEXT_MSG_UNKNOWN) example_state = example_state"
proof -
  have not_string: "\<forall>str. VNum 5 \<noteq> VStr str" by simp
  have null_throws: "get_property VNull (ustr ''type'') = Inl TypeError" by simp
  have unknown_type:
    "get_property (VObj [(ustr ''type'', VStr (ustr ''unknown''))]) (ustr ''type'')
       = Inr (VStr (ustr ''unknown''))"
    by (simp add: own_property_def)
  have unknown_tag: "VStr (ustr ''unknown'') \<notin> recognised_tags"
    by (simp add: recognised_tags_def ustr_def)
  show ?thesis
    using on_message_ignores_unrecognised [of "VNum 5" example_platform example_state]
      on_message_ignores_unrecognised [of "VStr (ustr ''hello'')" example_platform example_state]
      on_message_ignores_unrecognised [of "VStr (ustr ''null'')" example_platform example_state]
      on_message_ignores_unrecognised [of "VStr TEXT_MSG_UNKNOWN" example_platform example_state]
      not_string example_parse_values(1,2,3) null_throws unknown_type unknown_tag
    by blast
qed


lemma example_fields:
  "own_property [(ustr ''type'', VStr (ustr ''success'')), (ustr ''count'', VNum 7)] (ustr ''type'')
     = VStr (ustr ''success'')"
  "own_property [(ustr ''type'', VStr (ustr ''success'')), (ustr ''count'', VNum 7)] (ustr ''count'')
     = VNum 7"
  "own_property [(ustr ''type'', VStr (ustr ''error''))] (ustr ''type'') = VStr (ustr ''error'')"
  "own_property [(ustr ''type'', VStr (ustr ''error''))] (ustr ''message'') = VUndefined"
  "own_property [(ustr ''type'', VStr (ustr ''progress'')), (ustr ''current'', VNum 5),
                 (ustr ''total'', VNum 10)] (ustr ''type'') = VStr (ustr ''progress'')"
  "own_property [(ustr ''type'', VStr (ustr ''progress'')), (ustr ''current'', VNum 5),
                 (ustr ''total'', VNum 10)] (ustr ''current'') = VNum 5"
  "own_property [(ustr ''type'', VStr (ustr ''progress'')), (ustr ''current'', VNum 5),
                 (ustr ''total'', VNum 10)] (ustr ''total'') = VNum 10"
  by (simp_all add: own_property_def ustr_def)



section \<open>Selecting a shortcut\<close>

text \<open>
  C1, as amended.  For an index below 0 or not below the length of the shortcut list,
  \<^verbatim>\<open>selectGroup\<close> throws a \<^verbatim>\<open>TypeError\<close> (reading \<^verbatim>\<open>.id\<close> of \<^verbatim>\<open>undefined\<close>) before it
  writes anything: the group id field, the host calls and the rest of the state are as
  they were.
\<close>

theorem selectGroup_out_of_bounds:
  "index < 0 \<or> int (length (savedGroups s)) \<le> index \<Longrightarrow> selectGroup index s = (Some TypeError, s)"
  by (auto simp add: selectGroup_def)

theorem selectGroup_out_of_bounds_example:
  "selectGroup (- 1) example_state = (Some TypeError, example_state)
   \<and> selectGroup 7 example_state = (Some TypeError, example_state)"
  using selectGroup_out_of_bounds [of "- 1" example_state]
    selectGroup_out_of_bounds [of 7 example_state]
  by (simp add: example_state_def example_groups_1_def)

text \<open>
  C1 as stated fails: with one shortcut saved, index 1 is out of bounds and the call
  ends in an error, where the claim has it raise none.
\<close>

theorem selectGroup_out_of_bounds_raises:
  "fst (selectGroup 1 example_state) = Some TypeError"
  by (simp add: selectGroup_def example_state_def example_groups_1_def)

section \<open>The count controls after an edit\<close>

lemma nat_digits_range: "c \<in> set (nat_digits n) \<Longrightarrow> 48 \<le> c \<and> c \<le> 57"
proof (induction n rule: nat_digits.induct)
  case (1 n)
  show ?case
  proof (cases "n < 10")
    case True
    with "1.prems" show ?thesis by (simp add: nat_digits.simps [of n])
  next
    case False
    have "n mod 10 < 10" by simp
    with False "1.prems" "1.IH" show ?thesis
      by (auto simp add: nat_digits.simps [of n])
  qed
qed

lemma nat_digits_nonempty: "nat_digits n \<noteq> []"
  by (simp add: nat_digits.simps [of n])

lemma digits_value_snoc:
  "digits_value R (ds @ [c])
     = digits_value R ds * R + (case digit_value c of None \<Rightarrow> 0 | Some d \<Rightarrow> d)"
  by (simp add: digits_value_def)

lemma digit_value_digit: "d < 10 \<Longrightarrow> digit_value (48 + d) = Some d"
  by (simp add: digit_value_def)

lemma digits_value_nat_digits: "digits_value 10 (nat_digits n) = n"
proof (induction n rule: nat_digits.induct)
  case (1 n)
  show ?case
  proof (cases "n < 10")
    case True
    then show ?thesis
      by (simp add: nat_digits.simps [of n] digits_value_def digit_value_digit)
  next
    case False
    have "n mod 10 < 10" by simp
    then have "digit_value (48 + n mod 10) = Some (n mod 10)" by (rule digit_value_digit)
    with False "1.IH" show ?thesis
      by (simp add: nat_digits.simps [of n] digits_value_snoc)
  qed
qed

lemma digit_is_radix_digit: "48 \<le> c \<and> c \<le> 57 \<Longrightarrow> is_radix_digit 10 c"
  by (auto simp add: is_radix_digit_def digit_value_def)

lemma digit_not_whitespace: "48 \<le> c \<and> c \<le> 57 \<Longrightarrow> \<not> is_js_whitespace c"
  by (auto simp add: is_js_whitespace_def)

text \<open>\<^verbatim>\<open>parseInt\<close> on a text that starts with a digit and holds decimal digits only.\<close>

lemma parseInt_plain:
  assumes ne: "S \<noteq> []" and ws: "\<not> is_js_whitespace (hd S)"
    and plus: "hd S \<noteq> 43" and minus: "hd S \<noteq> 45"
    and x1: "1 < length S \<longrightarrow> S ! 1 \<noteq> 120" and x2: "1 < length S \<longrightarrow> S ! 1 \<noteq> 88"
    and all: "takeWhile (is_radix_digit 10) S = S"
  shows "parseInt S = Some (int (digits_value 10 S))"
proof -
  have d: "dropWhile is_js_whitespace S = S"
    using ne ws by (simp add: dropWhile_eq_self_iff)
  have hex: "(2 \<le> length S \<and> hd S = 48 \<and> (S ! 1 = 120 \<or> S ! 1 = 88)) = False"
    using x1 x2 by auto
  have sign: "(if S \<noteq> [] \<and> (hd S = 43 \<or> hd S = 45) then tl S else S) = S"
    using plus minus by simp
  have neg: "(S \<noteq> [] \<and> hd S = 45) = False"
    using minus by simp
  have "S \<noteq> []" by (rule ne)
  then show ?thesis
    unfolding parseInt_def d Let_def sign neg hex if_False all
    by simp
qed

lemma parseInt_nat_digits: "parseInt (nat_digits n) = Some (int n)"
proof -
  let ?ds = "nat_digits n"
  have ne: "?ds \<noteq> []" by (rule nat_digits_nonempty)
  then have hd_in: "hd ?ds \<in> set ?ds" by simp
  have hd_digit: "48 \<le> hd ?ds \<and> hd ?ds \<le> 57" using nat_digits_range [OF hd_in] .
  have second: "1 < length ?ds \<longrightarrow> 48 \<le> ?ds ! 1 \<and> ?ds ! 1 \<le> 57"
    using nat_digits_range [of "?ds ! 1" n] by simp
  have all: "takeWhile (is_radix_digit 10) ?ds = ?ds"
    using nat_digits_range digit_is_radix_digit by (simp add: takeWhile_eq_all_conv)
  have "parseInt ?ds = Some (int (digits_value 10 ?ds))"
  proof (rule parseInt_plain [OF ne _ _ _ _ _ all])
    show "\<not> is_js_whitespace (hd ?ds)" using hd_digit by (rule digit_not_whitespace)
    show "hd ?ds \<noteq> 43" "hd ?ds \<noteq> 45" using hd_digit by auto
    show "1 < length ?ds \<longrightarrow> ?ds ! 1 \<noteq> 120" "1 < length ?ds \<longrightarrow> ?ds ! 1 \<noteq> 88"
      using second by auto
  qed
  then show ?thesis by (simp add: digits_value_nat_digits)
qed

lemma parseInt_int_text: "0 \<le> n \<Longrightarrow> parseInt (int_text n) = Some n"
  by (simp add: int_text_def parseInt_nat_digits)

lemma clamp_count_range: "1 \<le> clamp_count p \<and> clamp_count p \<le> 100"
  by (simp add: clamp_count_def split: option.splits)

lemma countInput_oninput_clamp:
  "countInput_oninput s =
     s\<lparr>countRange_value := int_text (clamp_count (parseInt (countInput_value s))),
       countInput_value := int_text (clamp_count (parseInt (countInput_value s)))\<rparr>"
proof -
  have "max 1 (min 100 (case parseInt (countInput_value s) of None \<Rightarrow> 1
                        | Some n \<Rightarrow> if n = 0 then 1 else n))
          = clamp_count (parseInt (countInput_value s))"
    by (simp add: clamp_count_def split: option.splits)
  then show ?thesis
    by (simp add: countInput_oninput_def Let_def)
qed

lemma parseInt_clamp_text: "parseInt (int_text (clamp_count p)) = Some (clamp_count p)"
  using clamp_count_range [of p] by (simp add: parseInt_int_text)

text \<open>
  C3, as amended.  After an edit of the count input both controls hold the decimal text
  of one integer from 1 to 100: the number \<^verbatim>\<open>parseInt\<close> reads from the edited text,
  clamped (1 when there is no number, or 0), which is that number itself when it lies in
  the interval.  After an edit of the range control both controls hold the text the
  range control was given: the listener copies it and clamps nothing.
\<close>

theorem count_controls_after_edit:
  "countInput_value (edit_countInput v s) = int_text (clamp_count (parseInt v))
   \<and> countRange_value (edit_countInput v s) = int_text (clamp_count (parseInt v))
   \<and> parseInt (countInput_value (edit_countInput v s)) = Some (clamp_count (parseInt v))
   \<and> parseInt (countRange_value (edit_countInput v s)) = Some (clamp_count (parseInt v))
   \<and> 1 \<le> clamp_count (parseInt v) \<and> clamp_count (parseInt v) \<le> 100
   \<and> (\<forall>k. parseInt v = Some k \<and> 1 \<le> k \<and> k \<le> 100 \<longrightarrow> clamp_count (parseInt v) = k)
   \<and> countInput_value (edit_countRange v s) = v
   \<and> countRange_value (edit_countRange v s) = v"
  by (simp add: edit_countInput_def countInput_oninput_clamp edit_countRange_def
      countRange_oninput_def clamp_count_range parseInt_clamp_text)
    (simp add: clamp_count_def)

lemma parseInt_examples:
  "parseInt (ustr ''250'') = Some 250" "parseInt (ustr ''57'') = Some 57"
  "parseInt (ustr ''abc'') = None" "parseInt (ustr ''0'') = Some 0"
  "parseInt (ustr ''10'') = Some 10" "parseInt (ustr ''101'') = Some 101"
  by (simp_all add: parseInt_def ustr_def is_js_whitespace_def is_radix_digit_def
      digit_value_def digits_value_def)

lemma int_text_examples:
  "int_text 100 = ustr ''100''" "int_text 57 = ustr ''57''" "int_text 1 = ustr ''1''"
  by (simp_all add: int_text_def nat_digits.simps ustr_def)

theorem count_controls_after_edit_example:
  "countInput_value (edit_countInput (ustr ''250'') example_state) = ustr ''100''
   \<and> countRange_value (edit_countInput (ustr ''250'') example_state) = ustr ''100''
   \<and> countRange_value (edit_countInput (ustr ''57'') example_state) = ustr ''57''
   \<and> countRange_value (edit_countInput (ustr ''abc'') example_state) = ustr ''1''
   \<and> countInput_value (edit_countRange (ustr ''42'') example_state) = ustr ''42''"
  using count_controls_after_edit [of "ustr ''250''" example_state]
    count_controls_after_edit [of "ustr ''57''" example_state]
    count_controls_after_edit [of "ustr ''abc''" example_state]
    count_controls_after_edit [of "ustr ''42''" example_state]
  by (simp add: parseInt_examples clamp_count_def int_text_examples)

text \<open>
  C3 as stated fails on the range control: given the value 0, its listener leaves 0 in
  the count input, outside the interval from 1 to 100.
\<close>

theorem edit_countRange_not_clamped:
  "parseInt (countInput_value (edit_countRange (ustr ''0'') example_state)) = Some 0
   \<and> parseInt (countRange_value (edit_countRange (ustr ''0'') example_state)) = Some 0"
  by (simp add: edit_countRange_def countRange_oninput_def parseInt_examples)

section \<open>Validation\<close>

lemma alerts_distinct:
  "ALERT_GROUP_ID \<noteq> ALERT_DATES" "ALERT_GROUP_ID \<noteq> ALERT_COUNT" "ALERT_DATES \<noteq> ALERT_COUNT"
  by (simp_all add: ALERT_GROUP_ID_def ALERT_DATES_def ALERT_COUNT_def)

lemma validation_alert_inj: "validation_alert e = validation_alert e' \<longleftrightarrow> e = e'"
  using alerts_distinct
  by (cases e; cases e') (simp_all add: validation_alert_def; metis)+

lemma date_gt_le: "date_gt (Some a) (Some b) = (\<not> date_le (Some a) (Some b))"
  by (auto simp add: date_gt_def date_le_def)

lemma validateForm_by_first_failure:
  "validateForm P s =
     (case first_failure P s of
        None \<Rightarrow> (True, s)
      | Some e \<Rightarrow> (False, host_call (ShowAlert (validation_alert e)) s))"
  by (auto simp add: validateForm_def first_failure_def validation_alert_def count_in_range_def
      Let_def split: option.splits)

text \<open>
  C5, as amended.  \<^verbatim>\<open>validateForm\<close> tests, in this order, that the group id is not
  empty after trimming, that the start date is not later than the end date, and that the
  count parses as an integer from 1 to 100.  It succeeds, changing nothing, when no test
  fails, and otherwise raises the one alert of the first test that fails and returns
  false; the three alerts differ.  The second test passes when a date is invalid; when
  both dates are valid it is the test that the start date is at most the end date, and
  the function is the validation of the specification.
\<close>

theorem validateForm_first_failure:
  "validateForm P s =
     (case first_failure P s of
        None \<Rightarrow> (True, s)
      | Some e \<Rightarrow> (False, host_call (ShowAlert (validation_alert e)) s))
   \<and> fst (validateForm P s)
       = (trim (groupIdInput_value s) \<noteq> []
          \<and> \<not> date_gt (Date_getTime P (startDateInput_value s))
                (Date_getTime P (endDateInput_value s))
          \<and> count_in_range (parseInt (countInput_value s)))
   \<and> length (host_calls (snd (validateForm P s))) \<le> length (host_calls s) + 1
   \<and> (validation_alert e1 = validation_alert e2 \<longleftrightarrow> e1 = e2)
   \<and> (Date_getTime P (startDateInput_value s) \<noteq> None
        \<and> Date_getTime P (endDateInput_value s) \<noteq> None
        \<longrightarrow> first_failure P s = spec_validate P s)"
proof (intro conjI impI)
  show "fst (validateForm P s)
       = (trim (groupIdInput_value s) \<noteq> []
          \<and> \<not> date_gt (Date_getTime P (startDateInput_value s))
                (Date_getTime P (endDateInput_value s))
          \<and> count_in_range (parseInt (countInput_value s)))"
    by (simp add: validateForm_by_first_failure first_failure_def)
  show "length (host_calls (snd (validateForm P s))) \<le> length (host_calls s) + 1"
    by (simp add: validateForm_by_first_failure host_call_def split: option.splits)
  show "validateForm P s =
     (case first_failure P s of
        None \<Rightarrow> (True, s)
      | Some e \<Rightarrow> (False, host_call (ShowAlert (validation_alert e)) s))"
    by (rule validateForm_by_first_failure)
  show "validation_alert e1 = validation_alert e2 \<longleftrightarrow> e1 = e2"
    by (rule validation_alert_inj)
  assume "Date_getTime P (startDateInput_value s) \<noteq> None
        \<and> Date_getTime P (endDateInput_value s) \<noteq> None"
  then show "first_failure P s = spec_validate P s"
    by (auto simp add: first_failure_def spec_validate_def date_gt_le)
qed

lemma trim_examples:
  "trim (ustr ''durov'') = ustr ''durov''" "trim (ustr ''   '') = []"
  "trim (ustr '' News '') = ustr ''News''" "trim (ustr ''club2'') = ustr ''club2''"
  by (simp_all add: trim_def ustr_def is_js_whitespace_def)

lemma ustr_nonempty: "ustr ''durov'' \<noteq> []" "ustr ''News'' \<noteq> []" "ustr ''club2'' \<noteq> []"
  by (simp_all add: ustr_def)

lemma example_dates:
  "Date_getTime example_platform (ustr ''2024-01-01'') = Some 1704067200000"
  "Date_getTime example_platform (ustr ''2024-01-08'') = Some 1704672000000"
  "Date_getTime example_platform [] = None"
  by (simp_all add: example_platform_def ustr_def)

lemma example_state_form:
  "groupIdInput_value example_state = ustr ''durov''"
  "startDateInput_value example_state = ustr ''2024-01-01''"
  "endDateInput_value example_state = ustr ''2024-01-08''"
  "countInput_value example_state = ustr ''10''"
  by (simp_all add: example_state_def)

theorem validateForm_first_failure_example:
  "validateForm example_platform example_state = (True, example_state)
   \<and> validateForm example_platform
        (example_state\<lparr>groupIdInput_value := ustr ''   '',
                        startDateInput_value := ustr ''2024-01-08'',
                        endDateInput_value := ustr ''2024-01-01'',
                        countInput_value := ustr ''250''\<rparr>)
      = (False, host_call (ShowAlert ALERT_GROUP_ID)
          (example_state\<lparr>groupIdInput_value := ustr ''   '',
                          startDateInput_value := ustr ''2024-01-08'',
                          endDateInput_value := ustr ''2024-01-01'',
                          countInput_value := ustr ''250''\<rparr>))
   \<and> validateForm example_platform
        (example_state\<lparr>startDateInput_value := ustr ''2024-01-08'',
                        endDateInput_value := ustr ''2024-01-01'',
                        countInput_value := ustr ''250''\<rparr>)
      = (False, host_call (ShowAlert ALERT_DATES)
          (example_state\<lparr>startDateInput_value := ustr ''2024-01-08'',
                          endDateInput_value := ustr ''2024-01-01'',
                          countInput_value := ustr ''250''\<rparr>))
   \<and> validateForm example_platform (example_state\<lparr>countInput_value := ustr ''250''\<rparr>)
      = (False, host_call (ShowAlert ALERT_COUNT) (example_state\<lparr>countInput_value := ustr ''250''\<rparr>))
   \<and> spec_validate example_platform example_state = None"
proof -
  let ?blank = "example_state\<lparr>groupIdInput_value := ustr ''   '',
                        startDateInput_value := ustr ''2024-01-08'',
                        endDateInput_value := ustr ''2024-01-01'',
                        countInput_value := ustr ''250''\<rparr>"
  let ?inverted = "example_state\<lparr>startDateInput_value := ustr ''2024-01-08'',
                        endDateInput_value := ustr ''2024-01-01'',
                        countInput_value := ustr ''250''\<rparr>"
  let ?many = "example_state\<lparr>countInput_value := ustr ''250''\<rparr>"
  have none: "first_failure example_platform example_state = None"
    by (simp add: first_failure_def example_state_form trim_examples example_dates date_gt_def
        parseInt_examples count_in_range_def ustr_nonempty)
  have blank: "first_failure example_platform ?blank = Some EmptyGroupId"
    by (simp add: first_failure_def trim_examples)
  have inverted: "first_failure example_platform ?inverted = Some DateRangeInverted"
    by (simp add: first_failure_def example_state_form trim_examples example_dates date_gt_def
        ustr_nonempty)
  have many: "first_failure example_platform ?many = Some CountOutOfRange"
    by (simp add: first_failure_def example_state_form trim_examples example_dates date_gt_def
        parseInt_examples count_in_range_def ustr_nonempty)
  have spec: "spec_validate example_platform example_state = None"
    using validateForm_first_failure [of example_platform example_state]
    by (simp add: none example_state_form example_dates)
  show ?thesis
    using validateForm_first_failure [of example_platform example_state, THEN conjunct1]
      validateForm_first_failure [of example_platform ?blank, THEN conjunct1]
      validateForm_first_failure [of example_platform ?inverted, THEN conjunct1]
      validateForm_first_failure [of example_platform ?many, THEN conjunct1]
    by (simp add: none blank inverted many validation_alert_def spec)
qed

text \<open>
  C5 as stated fails when a date field is empty: with the start date cleared the script
  accepts the form, though a missing start date is not at most the end date and the
  validation of the specification answers \<open>DateRangeInverted\<close>.
\<close>

theorem validateForm_accepts_missing_date:
  "fst (validateForm example_platform (example_state\<lparr>startDateInput_value := []\<rparr>)) = True
   \<and> spec_validate example_platform (example_state\<lparr>startDateInput_value := []\<rparr>)
       = Some DateRangeInverted"
  by (simp add: validateForm_by_first_failure first_failure_def spec_validate_def
      example_state_form trim_examples example_dates date_gt_def date_le_def parseInt_examples
      count_in_range_def ustr_nonempty)

section \<open>Adding and deleting shortcuts\<close>

lemma renderSavedGroups_frame:
  "savedGroups (renderSavedGroups s) = savedGroups s"
  "localStorage (renderSavedGroups s) = localStorage s"
  "host_calls (renderSavedGroups s) = host_calls s"
  by (simp_all add: renderSavedGroups_def)

text \<open>
  C6.  When the name or the id typed into the add-shortcut form is empty after trimming,
  \<^verbatim>\<open>saveGroup\<close> leaves the list and the storage as they were.  Otherwise it appends the
  one entry of the trimmed name and id after the entries already there, stores the text
  of the new list under the storage key and only then signals the host; and where
  \<^verbatim>\<open>JSON.parse\<close> reads back what \<^verbatim>\<open>JSON.stringify\<close> wrote for that list (a text that is
  not empty), loading from the storage gives the list with the new entry last.
\<close>

theorem saveGroup_appends_and_persists:
  "(trim (newGroupNameInput_value s) = [] \<or> trim (newGroupIdInput_value s) = [] \<longrightarrow>
      savedGroups (saveGroup P s) = savedGroups s \<and> localStorage (saveGroup P s) = localStorage s)
   \<and> (trim (newGroupNameInput_value s) \<noteq> [] \<and> trim (newGroupIdInput_value s) \<noteq> [] \<longrightarrow>
      savedGroups (saveGroup P s)
        = savedGroups s
            @ [\<lparr>name = trim (newGroupNameInput_value s), id' = trim (newGroupIdInput_value s)\<rparr>]
      \<and> localStorage (saveGroup P s) SAVED_GROUPS_KEY
        = Some (JSON_stringify P (groups_value (savedGroups (saveGroup P s))))
      \<and> host_calls (saveGroup P s) = host_calls s @ [HapticNotification (ustr ''success'')])
   \<and> (trim (newGroupNameInput_value s) \<noteq> [] \<and> trim (newGroupIdInput_value s) \<noteq> []
        \<and> JSON_stringify P (groups_value (savedGroups (saveGroup P s))) \<noteq> []
        \<and> JSON_parse P (JSON_stringify P (groups_value (savedGroups (saveGroup P s))))
            = Inr (groups_value (savedGroups (saveGroup P s)))
      \<longrightarrow> load_savedGroups P (localStorage (saveGroup P s))
            = Inr (groups_value (savedGroups s
                @ [\<lparr>name = trim (newGroupNameInput_value s),
                    id' = trim (newGroupIdInput_value s)\<rparr>])))"
  by (simp add: saveGroup_def Let_def host_call_def localStorage_setItem_def hideAddGroupForm_def
      renderSavedGroups_frame load_savedGroups_def)

lemma example_stringify_values:
  "JSON_stringify example_platform (groups_value example_groups_2) = TEXT_GROUPS_2"
  "JSON_stringify example_platform (groups_value []) = ustr ''[]''"
  by (simp_all add: example_platform_def example_stringify_def groups_value_def
      example_groups_1_def example_groups_2_def ustr_def)

lemma example_texts_nonempty: "TEXT_GROUPS_2 \<noteq> []" "ustr ''[]'' \<noteq> []"
  by (simp_all add: TEXT_GROUPS_2_def ustr_def)

lemma example_state_store:
  "savedGroups example_state = example_groups_1"
  "newGroupNameInput_value example_state = ustr '' News ''"
  "newGroupIdInput_value example_state = ustr ''club2''"
  "localStorage example_state = [SAVED_GROUPS_KEY \<mapsto> TEXT_GROUPS_1]"
  by (simp_all add: example_state_def)

lemma example_groups_append:
  "example_groups_1 @ [\<lparr>name = ustr ''News'', id' = ustr ''club2''\<rparr>] = example_groups_2"
  by (simp add: example_groups_1_def example_groups_2_def)

theorem saveGroup_appends_and_persists_example:
  "savedGroups (saveGroup example_platform example_state) = example_groups_2
   \<and> localStorage (saveGroup example_platform example_state) SAVED_GROUPS_KEY = Some TEXT_GROUPS_2
   \<and> load_savedGroups example_platform (localStorage (saveGroup example_platform example_state))
       = Inr (groups_value example_groups_2)
   \<and> savedGroups (saveGroup example_platform (example_state\<lparr>newGroupIdInput_value := ustr ''   ''\<rparr>))
       = example_groups_1
   \<and> localStorage (saveGroup example_platform (example_state\<lparr>newGroupIdInput_value := ustr ''   ''\<rparr>))
       = [SAVED_GROUPS_KEY \<mapsto> TEXT_GROUPS_1]"
proof -
  have saved: "savedGroups (saveGroup example_platform example_state) = example_groups_2"
    using saveGroup_appends_and_persists [of example_state example_platform]
    by (simp add: example_state_store trim_examples ustr_nonempty example_groups_append)
  have stored:
    "localStorage (saveGroup example_platform example_state) SAVED_GROUPS_KEY = Some TEXT_GROUPS_2"
    using saveGroup_appends_and_persists [of example_state example_platform]
    by (simp add: example_state_store trim_examples ustr_nonempty saved example_stringify_values)
  have loaded:
    "load_savedGroups example_platform (localStorage (saveGroup example_platform example_state))
       = Inr (groups_value example_groups_2)"
    using saveGroup_appends_and_persists [of example_state example_platform]
    by (simp add: example_state_store trim_examples ustr_nonempty saved example_stringify_values
        example_texts_nonempty example_parse_values example_groups_append)
  have refused:
    "savedGroups (saveGroup example_platform (example_state\<lparr>newGroupIdInput_value := ustr ''   ''\<rparr>))
       = example_groups_1
     \<and> localStorage (saveGroup example_platform (example_state\<lparr>newGroupIdInput_value := ustr ''   ''\<rparr>))
       = [SAVED_GROUPS_KEY \<mapsto> TEXT_GROUPS_1]"
    using saveGroup_appends_and_persists
      [of "example_state\<lparr>newGroupIdInput_value := ustr ''   ''\<rparr>" example_platform]
    by (simp add: example_state_store trim_examples)
  show ?thesis
    using saved stored loaded refused by simp
qed

lemma splice1_nonneg:
  "0 \<le> index \<Longrightarrow> splice1 index xs = take (nat index) xs @ drop (Suc (nat index)) xs"
proof -
  assume nonneg: "0 \<le> index"
  show ?thesis
  proof (cases "index \<le> int (length xs)")
    case True
    with nonneg show ?thesis by (simp add: splice1_def Let_def min_def)
  next
    case False
    with nonneg show ?thesis by (simp add: splice1_def Let_def min_def)
  qed
qed

lemma splice1_negative:
  "index < 0 \<Longrightarrow>
     splice1 index xs
       = take (nat (max (int (length xs) + index) 0)) xs
           @ drop (Suc (nat (max (int (length xs) + index) 0))) xs"
  by (simp add: splice1_def Let_def)

lemma deleteGroup_declined:
  "deleteGroup P index False s = host_call (ShowConfirm CONFIRM_DELETE) s"
  by (simp add: deleteGroup_def Let_def)

lemma deleteGroup_confirmed:
  "savedGroups (deleteGroup P index True s) = splice1 index (savedGroups s)"
  "localStorage (deleteGroup P index True s) SAVED_GROUPS_KEY
     = Some (JSON_stringify P (groups_value (splice1 index (savedGroups s))))"
  by (simp_all add: deleteGroup_def Let_def host_call_def localStorage_setItem_def
      renderSavedGroups_frame)

text \<open>
  C7, as amended.  With the confirmation declined, \<^verbatim>\<open>deleteGroup\<close> leaves the list and
  the storage as they were, whatever the index.  With the confirmation given, the text
  of the new list is stored under the storage key, and the new list is the old one
  without its entry at the index, the other entries in their order, for every index from
  0 on (one entry fewer when the index is that of an entry, the same list when it is
  past the end).  A negative index is counted from the end of the list, and from its
  start when it reaches further back than the list is long.
\<close>

theorem deleteGroup_confirmation:
  "savedGroups (deleteGroup P index False s) = savedGroups s
   \<and> localStorage (deleteGroup P index False s) = localStorage s
   \<and> localStorage (deleteGroup P index True s) SAVED_GROUPS_KEY
       = Some (JSON_stringify P (groups_value (savedGroups (deleteGroup P index True s))))
   \<and> (0 \<le> index \<longrightarrow>
        savedGroups (deleteGroup P index True s)
          = take (nat index) (savedGroups s) @ drop (Suc (nat index)) (savedGroups s))
   \<and> (0 \<le> index \<and> index < int (length (savedGroups s)) \<longrightarrow>
        length (savedGroups (deleteGroup P index True s)) = length (savedGroups s) - 1)
   \<and> (index < 0 \<longrightarrow>
        savedGroups (deleteGroup P index True s)
          = take (nat (max (int (length (savedGroups s)) + index) 0)) (savedGroups s)
              @ drop (Suc (nat (max (int (length (savedGroups s)) + index) 0))) (savedGroups s))"
proof (intro conjI impI)
  show "savedGroups (deleteGroup P index False s) = savedGroups s"
    "localStorage (deleteGroup P index False s) = localStorage s"
    by (simp_all add: deleteGroup_declined host_call_def)
  show "localStorage (deleteGroup P index True s) SAVED_GROUPS_KEY
       = Some (JSON_stringify P (groups_value (savedGroups (deleteGroup P index True s))))"
    by (simp add: deleteGroup_confirmed)
next
  assume "0 \<le> index"
  then show "savedGroups (deleteGroup P index True s)
          = take (nat index) (savedGroups s) @ drop (Suc (nat index)) (savedGroups s)"
    by (simp add: deleteGroup_confirmed splice1_nonneg)
next
  assume "0 \<le> index \<and> index < int (length (savedGroups s))"
  then show "length (savedGroups (deleteGroup P index True s)) = length (savedGroups s) - 1"
    by (auto simp add: deleteGroup_confirmed splice1_nonneg)
next
  assume "index < 0"
  then show "savedGroups (deleteGroup P index True s)
          = take (nat (max (int (length (savedGroups s)) + index) 0)) (savedGroups s)
              @ drop (Suc (nat (max (int (length (savedGroups s)) + index) 0))) (savedGroups s)"
    by (simp add: deleteGroup_confirmed splice1_negative)
qed

theorem deleteGroup_confirmation_example:
  "savedGroups (deleteGroup example_platform 0 False example_state) = example_groups_1
   \<and> savedGroups (deleteGroup example_platform 0 True example_state) = []
   \<and> localStorage (deleteGroup example_platform 0 True example_state) SAVED_GROUPS_KEY
       = Some (ustr ''[]'')
   \<and> savedGroups (deleteGroup example_platform 1 True (example_state\<lparr>savedGroups := example_groups_2\<rparr>))
       = example_groups_1
   \<and> savedGroups (deleteGroup example_platform (- 2) True (example_state\<lparr>savedGroups := example_groups_2\<rparr>))
       = [\<lparr>name = ustr ''News'', id' = ustr ''club2''\<rparr>]"
  using deleteGroup_confirmation [of example_platform 0 example_state]
    deleteGroup_confirmation [of example_platform 1 "example_state\<lparr>savedGroups := example_groups_2\<rparr>"]
    deleteGroup_confirmation [of example_platform "- 2" "example_state\<lparr>savedGroups := example_groups_2\<rparr>"]
  by (simp add: example_state_store)
    (simp add: example_groups_1_def example_groups_2_def example_stringify_values)

text \<open>
  C7 as stated fails on a negative index: no entry of a list has index -1, yet with one
  shortcut saved a confirmed \<^verbatim>\<open>deleteGroup(-1)\<close> removes it.
\<close>

theorem deleteGroup_negative_index:
  "savedGroups (deleteGroup example_platform (- 1) True example_state) = []
   \<and> savedGroups example_state \<noteq> []"
  by (simp add: deleteGroup_confirmed splice1_def example_state_store example_groups_1_def)

section \<open>Rendering the shortcut list\<close>

lemma count_nat_digits: "c < 48 \<or> 57 < c \<Longrightarrow> count_list (nat_digits n) c = 0"
  using nat_digits_range [of c n] by (auto simp add: count_list_0_iff)

lemma escape_unit_no_markup: "60 \<notin> set (escape_unit c) \<and> 62 \<notin> set (escape_unit c)"
  by (simp add: escape_unit_def ustr_def)

lemma escapeHtml_no_markup: "60 \<notin> set (escapeHtml t) \<and> 62 \<notin> set (escapeHtml t)"
  using escape_unit_no_markup by (auto simp add: escapeHtml_def)

lemma count_escapeHtml: "count_list (escapeHtml t) 60 = 0" "count_list (escapeHtml t) 62 = 0"
  using escapeHtml_no_markup [of t] by (simp_all add: count_list_0_iff)

lemma count_TPL:
  "count_list TPL1 60 = 1" "count_list TPL2 60 = 2" "count_list TPL3 60 = 2"
  "count_list TPL4 60 = 4" "count_list TPL5 60 = 3"
  "count_list TPL1 62 = 0" "count_list TPL2 62 = 3" "count_list TPL3 62 = 2"
  "count_list TPL4 62 = 3" "count_list TPL5 62 = 4"
  by (simp_all add: TPL1_def TPL2_def TPL3_def TPL4_def TPL5_def ustr_def)

lemma count_group_item:
  "count_list (group_item i g) 60 = 12" "count_list (group_item i g) 62 = 12"
  by (simp_all add: group_item_def count_TPL count_escapeHtml count_nat_digits)

lemma count_items:
  "count_list (concat (map (\<lambda>(index, g). group_item index g) (enumerate n groups))) 60
     = 12 * length groups"
  "count_list (concat (map (\<lambda>(index, g). group_item index g) (enumerate n groups))) 62
     = 12 * length groups"
  by (induction groups arbitrary: n) (simp_all add: count_group_item)

text \<open>
  C9.  The markup \<^verbatim>\<open>renderSavedGroups\<close> writes for a list that is not empty is, entry by
  entry, the template with the index in its two index holes and \<^verbatim>\<open>escapeHtml\<close> of the
  name and of the id in the other two.  The escaped text holds no \<^verbatim>\<open><\<close> and no \<^verbatim>\<open>>\<close>
  whatever the text was: each \<^verbatim>\<open><\<close>, \<^verbatim>\<open>>\<close> and \<^verbatim>\<open>&\<close> of the text stands there as
  \<^verbatim>\<open>&lt;\<close>, \<^verbatim>\<open>&gt;\<close> and \<^verbatim>\<open>&amp;\<close>.  So the markup has the twelve \<^verbatim>\<open><\<close> and twelve
  \<^verbatim>\<open>>\<close> of the template for each entry and none from a name or an id.
\<close>

theorem renderSavedGroups_escapes:
  "(savedGroups s \<noteq> [] \<longrightarrow>
      groupsList_innerHTML (renderSavedGroups s)
        = concat (map (\<lambda>(index, g).
            TPL1 @ nat_digits index @ TPL2 @ escapeHtml (name g) @ TPL3 @ escapeHtml (id' g)
              @ TPL4 @ nat_digits index @ TPL5) (enumerate 0 (savedGroups s)))
      \<and> count_list (groupsList_innerHTML (renderSavedGroups s)) 60 = 12 * length (savedGroups s)
      \<and> count_list (groupsList_innerHTML (renderSavedGroups s)) 62 = 12 * length (savedGroups s))
   \<and> 60 \<notin> set (escapeHtml t) \<and> 62 \<notin> set (escapeHtml t)
   \<and> escapeHtml (a @ [60] @ b) = escapeHtml a @ ustr ''&lt;'' @ escapeHtml b
   \<and> escapeHtml (a @ [62] @ b) = escapeHtml a @ ustr ''&gt;'' @ escapeHtml b
   \<and> escapeHtml (a @ [38] @ b) = escapeHtml a @ ustr ''&amp;'' @ escapeHtml b"
proof (intro conjI impI)
  assume "savedGroups s \<noteq> []"
  then have html: "groupsList_innerHTML (renderSavedGroups s) = groups_markup (savedGroups s)"
    by (simp add: renderSavedGroups_def)
  show "groupsList_innerHTML (renderSavedGroups s)
        = concat (map (\<lambda>(index, g).
            TPL1 @ nat_digits index @ TPL2 @ escapeHtml (name g) @ TPL3 @ escapeHtml (id' g)
              @ TPL4 @ nat_digits index @ TPL5) (enumerate 0 (savedGroups s)))"
    by (simp add: html groups_markup_def group_item_def)
  show "count_list (groupsList_innerHTML (renderSavedGroups s)) 60 = 12 * length (savedGroups s)"
    by (simp add: html groups_markup_def count_items)
  show "count_list (groupsList_innerHTML (renderSavedGroups s)) 62 = 12 * length (savedGroups s)"
    by (simp add: html groups_markup_def count_items)
next
  show "60 \<notin> set (escapeHtml t)" "62 \<notin> set (escapeHtml t)"
    using escapeHtml_no_markup [of t] by simp_all
next
  show "escapeHtml (a @ [60] @ b) = escapeHtml a @ ustr ''&lt;'' @ escapeHtml b"
    "escapeHtml (a @ [62] @ b) = escapeHtml a @ ustr ''&gt;'' @ escapeHtml b"
    "escapeHtml (a @ [38] @ b) = escapeHtml a @ ustr ''&amp;'' @ escapeHtml b"
    by (simp_all add: escapeHtml_def escape_unit_def)
qed

lemma escapeHtml_script: "escapeHtml (ustr ''<script>'') = ustr ''&lt;script&gt;''"
  by (simp add: escapeHtml_def escape_unit_def ustr_def)

lemma escapeHtml_club1: "escapeHtml (ustr ''club1'') = ustr ''club1''"
  by (simp add: escapeHtml_def escape_unit_def ustr_def)

lemma nat_digits_0: "nat_digits 0 = ustr ''0''"
  by (simp add: nat_digits.simps ustr_def)

theorem renderSavedGroups_escapes_example:
  "groupsList_innerHTML (renderSavedGroups example_state)
     = TPL1 @ ustr ''0'' @ TPL2 @ ustr ''&lt;script&gt;'' @ TPL3 @ ustr ''club1'' @ TPL4
         @ ustr ''0'' @ TPL5
   \<and> count_list (groupsList_innerHTML (renderSavedGroups example_state)) 60 = 12"
proof -
  have nonempty: "savedGroups example_state \<noteq> []"
    by (simp add: example_state_store example_groups_1_def)
  note rendered = renderSavedGroups_escapes [of example_state, THEN conjunct1, rule_format,
      OF nonempty]
  have markup:
    "groupsList_innerHTML (renderSavedGroups example_state)
       = TPL1 @ ustr ''0'' @ TPL2 @ ustr ''&lt;script&gt;'' @ TPL3 @ ustr ''club1'' @ TPL4
           @ ustr ''0'' @ TPL5"
    using rendered [THEN conjunct1]
    by (simp add: example_state_store example_groups_1_def escapeHtml_script escapeHtml_club1
        nat_digits_0)
  have count: "count_list (groupsList_innerHTML (renderSavedGroups example_state)) 60 = 12"
    using rendered [THEN conjunct2, THEN conjunct1]
    by (simp add: example_state_store example_groups_1_def)
  show ?thesis
    using markup count by (rule conjI)
qed

section \<open>After a success notification\<close>

lemma mainButton_click_last:
  "mainButton_clickHandlers s = hs @ [h] \<Longrightarrow>
     mainButton_click P s = run_handler P h (foldl (\<lambda>st h. run_handler P h st) s hs)"
  by (simp add: mainButton_click_def)

text \<open>
  What \<^verbatim>\<open>showSuccess\<close> of \<^verbatim>\<open>webapp/app.js\<close> does: the status area takes the success
  class, the success icon and the text with the count; the main button is shown with
  the label for copying more; and after the next click, when every handler has run, the
  status area is hidden and the button bears the start label.  \<^verbatim>\<open>handleSubmit\<close>,
  registered at load and never removed, runs on that click as well, before the closure
  (see \<open>showSuccess_click_resubmits\<close> below).
\<close>

theorem showSuccess_rearms:
  "statusDiv_classList (showSuccess P c s)
     = insert C_success (statusDiv_classList s - {C_processing, C_error})
   \<and> status_icon_textContent (showSuccess P c s) = ICON_SUCCESS
   \<and> status_text_textContent (showSuccess P c s) = SUCCESS_PREFIX @ ToString P c @ SUCCESS_SUFFIX
   \<and> mainButton_isVisible (showSuccess P c s)
   \<and> mainButton_text (showSuccess P c s) = TEXT_COPY_MORE
   \<and> C_hidden \<in> statusDiv_classList (mainButton_click P (showSuccess P c s))
   \<and> mainButton_text (mainButton_click P (showSuccess P c s)) = TEXT_START"
proof -
  have handlers:
    "mainButton_clickHandlers (showSuccess P c s)
       = mainButton_clickHandlers s @ [H_resetAfterSuccess]"
    by (simp add: showSuccess_def mainButton_onClick_def)
  show ?thesis
    by (simp add: mainButton_click_last [OF handlers] resetAfterSuccess_def)
      (simp add: showSuccess_def mainButton_onClick_def)
qed

lemma validateForm_example: "validateForm example_platform example_state = (True, example_state)"
  by (simp add: validateForm_by_first_failure first_failure_def example_state_form trim_examples
      example_dates date_gt_def parseInt_examples count_in_range_def ustr_nonempty)

text \<open>
  The click after a success in \<^verbatim>\<open>webapp/app.js\<close>, on a valid form: \<^verbatim>\<open>handleSubmit\<close> sends
  the request again, hides the main button and gives the status area the processing
  class, before the closure hides the status area and restores the start label.
\<close>

lemma showSuccess_click_resubmits:
  "mainButton_isVisible
      (mainButton_click example_platform (showSuccess example_platform (VNum 7) example_state))
     = False
   \<and> statusDiv_classList
      (mainButton_click example_platform (showSuccess example_platform (VNum 7) example_state))
     = {C_hidden, C_processing}
   \<and> host_calls
      (mainButton_click example_platform (showSuccess example_platform (VNum 7) example_state))
     = [SendData (JSON_stringify example_platform (submit_data example_state)),
        ScrollIntoView E_statusDiv]"
proof -
  define s7 where "s7 = showSuccess example_platform (VNum 7) example_state"
  have form:
    "groupIdInput_value s7 = ustr ''durov''"
    "startDateInput_value s7 = ustr ''2024-01-01''"
    "endDateInput_value s7 = ustr ''2024-01-08''"
    "countInput_value s7 = ustr ''10''"
    by (simp_all add: s7_def showSuccess_def mainButton_onClick_def example_state_form)
  have valid: "validateForm example_platform s7 = (True, s7)"
    by (simp add: validateForm_by_first_failure first_failure_def form trim_examples
        example_dates date_gt_def parseInt_examples count_in_range_def ustr_nonempty)
  have data: "submit_data s7 = submit_data example_state"
    by (simp add: submit_data_def s7_def showSuccess_def mainButton_onClick_def)
  have handlers: "mainButton_clickHandlers s7 = [H_handleSubmit, H_resetAfterSuccess]"
    by (simp add: s7_def showSuccess_def mainButton_onClick_def example_state_def)
  have click:
    "mainButton_click example_platform s7
       = resetAfterSuccess (showProcessing
           (host_call (SendData (JSON_stringify example_platform (submit_data example_state))) s7))"
    by (simp add: mainButton_click_def handlers handleSubmit_def valid data)
  have "mainButton_isVisible (mainButton_click example_platform s7) = False"
    "statusDiv_classList (mainButton_click example_platform s7) = {C_hidden, C_processing}"
    "host_calls (mainButton_click example_platform s7)
       = [SendData (JSON_stringify example_platform (submit_data example_state)),
          ScrollIntoView E_statusDiv]"
    unfolding click
    by (auto simp add: resetAfterSuccess_def showProcessing_def host_call_def s7_def
        showSuccess_def mainButton_onClick_def example_state_def)
  then show ?thesis unfolding s7_def by simp
qed

lemma showSuccess_2_button:
  "mainButton_isVisible (showSuccess_2 P c s) = mainButton_isVisible s"
  "mainButton_text (showSuccess_2 P c s) = mainButton_text s"
  "mainButton_clickHandlers (showSuccess_2 P c s) = mainButton_clickHandlers s"
  by (simp_all add: showSuccess_2_def)

lemma on_message_2_success_example:
  "on_message_2 example_platform (VStr TEXT_MSG_SUCCESS) s
     = showSuccess_2 example_platform (VNum 7) s"
  by (simp add: on_message_2_object [OF example_parse_values(5)] example_fields tag_distinct)

text \<open>
  C2 in the second copy of the script: after a submission, which hides the main button,
  the success notification leaves the button hidden, with the start label and with
  \<^verbatim>\<open>handleSubmit\<close> as its only click handler.
\<close>

theorem showSuccess_2_leaves_button:
  "mainButton_isVisible (on_message_2 example_platform (VStr TEXT_MSG_SUCCESS)
        (mainButton_click_2 example_platform example_state)) = False
   \<and> mainButton_text (on_message_2 example_platform (VStr TEXT_MSG_SUCCESS)
        (mainButton_click_2 example_platform example_state)) = TEXT_START
   \<and> mainButton_clickHandlers (on_message_2 example_platform (VStr TEXT_MSG_SUCCESS)
        (mainButton_click_2 example_platform example_state)) = [H_handleSubmit]
   \<and> status_icon_textContent (on_message_2 example_platform (VStr TEXT_MSG_SUCCESS)
        (mainButton_click_2 example_platform example_state)) = ICON_SUCCESS"
  by (simp add: on_message_2_success_example showSuccess_2_button mainButton_click_2_def
      handleSubmit_2_def validateForm_example showProcessing_2_def host_call_def)
    (simp add: example_state_def showSuccess_2_def)

end
